theory Spec2Isabelle
  imports Complex_Main "HOL-Library.Product_Lexorder" "HOL-Library.AList"
begin

section \<open>Values held by a pandas object\<close>

subsection \<open>float64 cells\<close>

text \<open>
  A float64 is modelled as an exact real number or one of the three IEEE special values.
  Finite arithmetic is exact (no rounding, no overflow to infinity) and the two zeros are
  not told apart: a nonzero number divided by zero gives the infinity that has the sign of
  the numerator. Every operation that can produce \<open>NaN\<close> or an infinity in numpy does so
  here, so that a missing value is a value of the model and never an unspecified one.
  A decimal literal of the source is the rational number it denotes.
\<close>

datatype fl = Fin real | PInf | NInf | NaN

fun fneg :: "fl \<Rightarrow> fl" where
  "fneg (Fin a) = Fin (- a)"
| "fneg PInf = NInf"
| "fneg NInf = PInf"
| "fneg NaN = NaN"

fun fadd :: "fl \<Rightarrow> fl \<Rightarrow> fl" where
  "fadd NaN _ = NaN"
| "fadd _ NaN = NaN"
| "fadd (Fin a) (Fin b) = Fin (a + b)"
| "fadd PInf NInf = NaN"
| "fadd NInf PInf = NaN"
| "fadd PInf _ = PInf"
| "fadd _ PInf = PInf"
| "fadd NInf _ = NInf"
| "fadd _ NInf = NInf"

definition fsub :: "fl \<Rightarrow> fl \<Rightarrow> fl" where
  "fsub a b = fadd a (fneg b)"

text \<open>The infinity with the sign of a nonzero real.\<close>

definition inf_of :: "real \<Rightarrow> fl" where
  "inf_of s = (if 0 < s then PInf else NInf)"

fun fmul :: "fl \<Rightarrow> fl \<Rightarrow> fl" where
  "fmul NaN _ = NaN"
| "fmul _ NaN = NaN"
| "fmul (Fin a) (Fin b) = Fin (a * b)"
| "fmul (Fin a) PInf = (if a = 0 then NaN else inf_of a)"
| "fmul (Fin a) NInf = (if a = 0 then NaN else inf_of (- a))"
| "fmul PInf (Fin b) = (if b = 0 then NaN else inf_of b)"
| "fmul NInf (Fin b) = (if b = 0 then NaN else inf_of (- b))"
| "fmul PInf PInf = PInf"
| "fmul PInf NInf = NInf"
| "fmul NInf PInf = NInf"
| "fmul NInf NInf = PInf"

fun fdiv :: "fl \<Rightarrow> fl \<Rightarrow> fl" where
  "fdiv NaN _ = NaN"
| "fdiv _ NaN = NaN"
| "fdiv (Fin a) (Fin b) = (if b \<noteq> 0 then Fin (a / b) else if a = 0 then NaN else inf_of a)"
| "fdiv (Fin a) PInf = Fin 0"
| "fdiv (Fin a) NInf = Fin 0"
| "fdiv PInf (Fin b) = (if 0 \<le> b then PInf else NInf)"
| "fdiv NInf (Fin b) = (if 0 \<le> b then NInf else PInf)"
| "fdiv PInf PInf = NaN"
| "fdiv PInf NInf = NaN"
| "fdiv NInf PInf = NaN"
| "fdiv NInf NInf = NaN"

text \<open>\<open>a < b\<close> on floats: every comparison with \<open>NaN\<close> is false.\<close>

fun flt :: "fl \<Rightarrow> fl \<Rightarrow> bool" where
  "flt NaN _ = False"
| "flt _ NaN = False"
| "flt (Fin a) (Fin b) = (a < b)"
| "flt (Fin a) PInf = True"
| "flt (Fin a) NInf = False"
| "flt PInf _ = False"
| "flt NInf NInf = False"
| "flt NInf _ = True"

fun fsqrt :: "fl \<Rightarrow> fl" where
  "fsqrt (Fin a) = (if a < 0 then NaN else Fin (sqrt a))"
| "fsqrt PInf = PInf"
| "fsqrt NInf = NaN"
| "fsqrt NaN = NaN"

text \<open>\<open>x ** n\<close> for a natural exponent, by repeated multiplication.\<close>

primrec fpow :: "fl \<Rightarrow> nat \<Rightarrow> fl" where
  "fpow x 0 = Fin 1"
| "fpow x (Suc n) = fmul x (fpow x n)"

definition fsum :: "fl list \<Rightarrow> fl" where
  "fsum xs = foldl fadd (Fin 0) xs"

subsection \<open>Cells, columns, series and frames\<close>

text \<open>
  A cell of a column is a float or a string (the regime label). A date is year, month and
  day, ordered lexicographically; the time of day plays no part in the calculations.
  A series is a list of labelled cells, a frame an index and named columns, in the order
  of insertion. The exceptions are those of Python and pandas.
\<close>

datatype cell = Num fl | Str string

type_synonym date = "int \<times> nat \<times> nat"

type_synonym series = "(date \<times> cell) list"

record frame =
  index :: "date list"
  columns :: "(string \<times> cell list) list"

datatype error = KeyError | TypeError | ValueError | FileNotFoundError | ParserError

definition isna :: "cell \<Rightarrow> bool" where
  "isna c = (c = Num NaN)"

text \<open>\<open>df[c]\<close>: the column under its index, \<open>KeyError\<close> when there is no such column.\<close>

definition getitem :: "frame \<Rightarrow> string \<Rightarrow> error + series" where
  "getitem df c =
     (case map_of (columns df) c of
        None \<Rightarrow> Inl KeyError
      | Some col \<Rightarrow> Inr (zip (index df) col))"

text \<open>\<open>df[c] = col\<close>: an existing column is replaced in place, a new one comes last.\<close>

definition setitem :: "frame \<Rightarrow> string \<Rightarrow> cell list \<Rightarrow> frame" where
  "setitem df c col = df\<lparr>columns := AList.update c col (columns df)\<rparr>"

text \<open>
  Arithmetic on a column works cell by cell and raises \<open>TypeError\<close> at a string:
  the floats of a column that holds no string. (For a column of strings the exception
  of pandas depends on the operation; the model reports \<open>TypeError\<close> throughout, and no
  property below is about such a column.)
\<close>

fun as_num :: "cell list \<Rightarrow> error + fl list" where
  "as_num [] = Inr []"
| "as_num (Str s # cs) = Inl TypeError"
| "as_num (Num v # cs) = (case as_num cs of Inl e \<Rightarrow> Inl e | Inr vs \<Rightarrow> Inr (v # vs))"

section \<open>The calculator\<close>

subsection \<open>Regime classification\<close>

text \<open>
  \<open>classify_inflation_regime\<close>: two comparisons with the float literals 0.01 and 0.03.
  Comparing a string with a float raises \<open>TypeError\<close>.
\<close>

fun classify_inflation_regime :: "cell \<Rightarrow> error + string" where
  "classify_inflation_regime (Str s) = Inl TypeError"
| "classify_inflation_regime (Num inflation_rate) =
     (if flt inflation_rate (Fin 0.01) then Inr ''Low (<1%)''
      else if flt inflation_rate (Fin 0.03) then Inr ''Moderate (1-3%)''
      else Inr ''High (>3%)'')"

subsection \<open>Returns\<close>

text \<open>
  \<open>Series.pct_change()\<close> computes \<open>data / data.shift(1) - 1\<close>, where \<open>shift(1)\<close> moves
  every value one row down and puts \<open>NaN\<close> in the first row. Before that, pandas 2 fills
  each missing value with the last value seen (\<open>fill_method='pad'\<close>) and pandas 3 does
  not: \<open>pad\<close> is that default of the library. \<open>dropna\<close> removes the rows whose value is
  \<open>NaN\<close> (an infinity is not missing).
\<close>

fun ffill :: "fl \<Rightarrow> fl list \<Rightarrow> fl list" where
  "ffill prev [] = []"
| "ffill prev (v # vs) = (if v = NaN then prev # ffill prev vs else v # ffill v vs)"

definition shift1 :: "fl list \<Rightarrow> fl list" where
  "shift1 vs = take (length vs) (NaN # vs)"

definition pct_change :: "bool \<Rightarrow> series \<Rightarrow> error + series" where
  "pct_change pad s =
     (case as_num (map snd s) of
        Inl e \<Rightarrow> Inl e
      | Inr vs \<Rightarrow>
          let data = (if pad then ffill NaN vs else vs);
              rs = map2 (\<lambda>p q. fsub (fdiv p q) (Fin 1)) data (shift1 data)
          in Inr (zip (map fst s) (map Num rs)))"

definition dropna :: "series \<Rightarrow> series" where
  "dropna s = filter (\<lambda>dc. \<not> isna (snd dc)) s"

definition calculate_returns :: "bool \<Rightarrow> frame \<Rightarrow> string \<Rightarrow> error + series" where
  "calculate_returns pad prices_df price_col =
     (case getitem prices_df price_col of
        Inl e \<Rightarrow> Inl e
      | Inr prices \<Rightarrow>
          (case pct_change pad prices of
             Inl e \<Rightarrow> Inl e
           | Inr returns \<Rightarrow> Inr (dropna returns)))"

subsection \<open>Alignment\<close>

text \<open>
  \<open>index.to_period('M').to_timestamp('M')\<close> replaces every date by the last day of its
  month.
\<close>

definition is_leap :: "int \<Rightarrow> bool" where
  "is_leap y \<longleftrightarrow> y mod 4 = 0 \<and> (y mod 100 \<noteq> 0 \<or> y mod 400 = 0)"

definition days_in_month :: "int \<Rightarrow> nat \<Rightarrow> nat" where
  "days_in_month y m =
     (if m = 2 then (if is_leap y then 29 else 28)
      else if m = 4 \<or> m = 6 \<or> m = 9 \<or> m = 11 then 30
      else 31)"

definition to_month_end :: "date \<Rightarrow> date" where
  "to_month_end d = (fst d, fst (snd d), days_in_month (fst d) (fst (snd d)))"

text \<open>
  \<open>pd.DataFrame({k1: s1, k2: s2})\<close> puts the two series on the union of their indexes.
  The union is the first index as it stands when the second is empty or equal to it,
  the second when the first is empty, and otherwise the sorted union in which a label
  occurs as often as in the index where it occurs most. A series whose index is not the
  union already is reindexed: a label it lacks gets \<open>NaN\<close>, and a series with a repeated
  label cannot be reindexed (\<open>ValueError\<close>).
\<close>

definition union_index :: "date list \<Rightarrow> date list \<Rightarrow> date list" where
  "union_index a b =
     (if b = [] \<or> a = b then a
      else if a = [] then b
      else sort (a @ fold remove1 a b))"

definition lookup_cell :: "series \<Rightarrow> date \<Rightarrow> cell" where
  "lookup_cell s d = (case map_of s d of None \<Rightarrow> Num NaN | Some v \<Rightarrow> v)"

definition reindex :: "series \<Rightarrow> date list \<Rightarrow> error + cell list" where
  "reindex s idx =
     (if map fst s = idx then Inr (map snd s)
      else if \<not> distinct (map fst s) then Inl ValueError
      else Inr (map (lookup_cell s) idx))"

definition data_frame :: "string \<Rightarrow> series \<Rightarrow> string \<Rightarrow> series \<Rightarrow> error + frame" where
  "data_frame k1 s1 k2 s2 =
     (let idx = union_index (map fst s1) (map fst s2)
      in case reindex s1 idx of
           Inl e \<Rightarrow> Inl e
         | Inr c1 \<Rightarrow>
             (case reindex s2 idx of
                Inl e \<Rightarrow> Inl e
              | Inr c2 \<Rightarrow> Inr \<lparr>index = idx, columns = [(k1, c1), (k2, c2)]\<rparr>))"

text \<open>\<open>DataFrame.dropna()\<close> keeps the rows in which no column is missing.\<close>

definition row_complete :: "frame \<Rightarrow> nat \<Rightarrow> bool" where
  "row_complete df i = list_all (\<lambda>kc. \<not> isna (snd kc ! i)) (columns df)"

definition dropna_frame :: "frame \<Rightarrow> frame" where
  "dropna_frame df =
     (let keep = filter (row_complete df) [0..<length (index df)]
      in \<lparr>index = map ((!) (index df)) keep,
          columns = map (\<lambda>kc. (fst kc, map ((!) (snd kc)) keep)) (columns df)\<rparr>)"

definition align_data :: "frame \<Rightarrow> series \<Rightarrow> error + frame" where
  "align_data cpi_df returns_series =
     (let cpi_normalized = cpi_df\<lparr>index := map to_month_end (index cpi_df)\<rparr>;
          returns_normalized = map (\<lambda>dc. (to_month_end (fst dc), snd dc)) returns_series
      in case getitem cpi_normalized ''Inflation_Rate'' of
           Inl e \<Rightarrow> Inl e
         | Inr inflation \<Rightarrow>
             (case data_frame ''Inflation_Rate'' inflation ''Nominal_Return'' returns_normalized of
                Inl e \<Rightarrow> Inl e
              | Inr combined \<Rightarrow> Inr (dropna_frame combined)))"

subsection \<open>Frames that are modified in place\<close>

text \<open>
  The functions below assign a column to the frame they are given and return that same
  frame: the caller and the function share one object. The store maps a reference to
  the frame it denotes; a function takes the reference and the store and returns the
  store it leaves behind, with the reference it returns or the exception it raises.
\<close>

type_synonym ref = nat

type_synonym heap = "ref \<Rightarrow> frame"

text \<open>
  \<open>a - b\<close> for two columns of one frame (they share its index, so the rows are paired
  by position).
\<close>

definition series_sub :: "series \<Rightarrow> series \<Rightarrow> error + series" where
  "series_sub a b =
     (case as_num (map snd a) of
        Inl e \<Rightarrow> Inl e
      | Inr xs \<Rightarrow>
          (case as_num (map snd b) of
             Inl e \<Rightarrow> Inl e
           | Inr ys \<Rightarrow> Inr (zip (map fst a) (map Num (map2 fsub xs ys)))))"

definition calculate_real_returns :: "ref \<Rightarrow> heap \<Rightarrow> (error + ref) \<times> heap" where
  "calculate_real_returns combined_df h =
     (case getitem (h combined_df) ''Nominal_Return'' of
        Inl e \<Rightarrow> (Inl e, h)
      | Inr nominal \<Rightarrow>
          (case getitem (h combined_df) ''Inflation_Rate'' of
             Inl e \<Rightarrow> (Inl e, h)
           | Inr inflation \<Rightarrow>
               (case series_sub nominal inflation of
                  Inl e \<Rightarrow> (Inl e, h)
                | Inr real_return \<Rightarrow>
                    (Inr combined_df,
                     h(combined_df :=
                         setitem (h combined_df) ''Real_Return'' (map snd real_return))))))"

text \<open>\<open>Series.apply(f)\<close>: \<open>f\<close> on every cell in turn, stopping at the first exception.\<close>

fun apply_cells :: "(cell \<Rightarrow> error + string) \<Rightarrow> cell list \<Rightarrow> error + cell list" where
  "apply_cells f [] = Inr []"
| "apply_cells f (c # cs) =
     (case f c of
        Inl e \<Rightarrow> Inl e
      | Inr s \<Rightarrow> (case apply_cells f cs of Inl e \<Rightarrow> Inl e | Inr ss \<Rightarrow> Inr (Str s # ss)))"

definition add_inflation_regimes :: "ref \<Rightarrow> heap \<Rightarrow> (error + ref) \<times> heap" where
  "add_inflation_regimes df h =
     (case getitem (h df) ''Inflation_Rate'' of
        Inl e \<Rightarrow> (Inl e, h)
      | Inr inflation \<Rightarrow>
          (case apply_cells classify_inflation_regime (map snd inflation) of
             Inl e \<Rightarrow> (Inl e, h)
           | Inr regimes \<Rightarrow> (Inr df, h(df := setitem (h df) ''Inflation_Regime'' regimes))))"

text \<open>
  \<open>Series.cumprod()\<close> skips missing values: a \<open>NaN\<close> stays \<open>NaN\<close> in the result and
  counts as 1 in the running product.
\<close>

fun cumprod_from :: "fl \<Rightarrow> fl list \<Rightarrow> fl list" where
  "cumprod_from acc [] = []"
| "cumprod_from acc (v # vs) =
     (if v = NaN then NaN # cumprod_from acc vs
      else fmul acc v # cumprod_from (fmul acc v) vs)"

definition cumprod :: "fl list \<Rightarrow> fl list" where
  "cumprod vs = cumprod_from (Fin 1) vs"

text \<open>\<open>(1 + s).cumprod() - 1\<close> on the cells of a column.\<close>

definition cumulative :: "cell list \<Rightarrow> error + cell list" where
  "cumulative col =
     (case as_num col of
        Inl e \<Rightarrow> Inl e
      | Inr rs \<Rightarrow> Inr (map (\<lambda>v. Num (fsub v (Fin 1))) (cumprod (map (fadd (Fin 1)) rs))))"

definition calculate_cumulative_returns :: "ref \<Rightarrow> heap \<Rightarrow> (error + ref) \<times> heap" where
  "calculate_cumulative_returns df h =
     (case getitem (h df) ''Nominal_Return'' of
        Inl e \<Rightarrow> (Inl e, h)
      | Inr nominal \<Rightarrow>
          (case cumulative (map snd nominal) of
             Inl e \<Rightarrow> (Inl e, h)
           | Inr cumulative_nominal \<Rightarrow>
               (let h1 = h(df := setitem (h df) ''Cumulative_Nominal'' cumulative_nominal)
                in case getitem (h1 df) ''Real_Return'' of
                     Inl e \<Rightarrow> (Inl e, h1)
                   | Inr real_return \<Rightarrow>
                       (case cumulative (map snd real_return) of
                          Inl e \<Rightarrow> (Inl e, h1)
                        | Inr cumulative_real \<Rightarrow>
                            (Inr df,
                             h1(df := setitem (h1 df) ''Cumulative_Real'' cumulative_real))))))"

text \<open>
  The inverse the specification describes, in its words: the return of period \<open>t\<close> read
  back from a cumulative series \<open>C\<close> as \<open>(1 + C t) / (1 + C (t - 1)) - 1\<close>, where the
  cumulative return before the first period is 0.
\<close>

definition reconstruct_return :: "fl list \<Rightarrow> nat \<Rightarrow> fl" where
  "reconstruct_return C t =
     fsub (fdiv (fadd (Fin 1) (C ! t))
                (fadd (Fin 1) (if t = 0 then Fin 0 else C ! (t - 1))))
          (Fin 1)"

text \<open>
  The compounding formula of the specification on a series of finite returns:
  \<open>C t\<close> is the product of \<open>1 + r i\<close> over the periods up to \<open>t\<close>, minus 1.
\<close>

definition compounded :: "real list \<Rightarrow> fl list" where
  "compounded rs =
     map (\<lambda>t. Fin (prod_list (map (\<lambda>r. 1 + r) (take (Suc t) rs)) - 1)) [0..<length rs]"

subsection \<open>Annualized metrics\<close>

text \<open>
  \<open>Series.mean()\<close> and \<open>Series.std()\<close> skip missing values. The mean is the sum of the
  observations over their number, \<open>NaN\<close> when there is none. The standard deviation is
  the bias-corrected one (\<open>ddof = 1\<close>): the square root of the sum of squared deviations
  from the mean over the number of observations minus one, \<open>NaN\<close> when there are fewer
  than two observations.

  One outcome of the float computation is not a matter of size but of rounding alone.
  Over exact arithmetic the squared deviations of a constant series sum to 0. In float64
  the mean of a constant series can miss the constant by one unit in the last place,
  and the standard deviation is then 0 or a residue of rounding (about 1.7e-17 for three
  observations of 0.1), which the comparison \<open>ann_vol != 0\<close> tells apart. The model does
  not decide it: the standard deviation of a constant series is what the parameter
  \<open>constant_std\<close> gives for it.
\<close>

definition observations :: "fl list \<Rightarrow> fl list" where
  "observations vs = filter (\<lambda>v. v \<noteq> NaN) vs"

definition series_mean :: "fl list \<Rightarrow> fl" where
  "series_mean vs =
     (let obs = observations vs; count = length obs
      in if count = 0 then NaN else fdiv (fsum obs) (Fin (real count)))"

definition series_std :: "(fl list \<Rightarrow> fl) \<Rightarrow> fl list \<Rightarrow> fl" where
  "series_std constant_std vs =
     (let obs = observations vs; count = length obs
      in if count \<le> 1 then NaN
         else (let avg = fdiv (fsum obs) (Fin (real count));
                   sqr = fsum (map (\<lambda>v. fmul (fsub avg v) (fsub avg v)) obs)
               in if sqr = Fin 0 then constant_std obs
                  else fsqrt (fdiv sqr (Fin (real count - 1)))))"

text \<open>The dictionary that \<open>calculate_annualized_metrics\<close> returns has three fixed keys.\<close>

record metrics =
  Annualized_Return :: fl
  Annualized_Volatility :: fl
  Sharpe_Ratio :: fl

definition calculate_annualized_metrics ::
    "(fl list \<Rightarrow> fl) \<Rightarrow> series \<Rightarrow> error + metrics" where
  "calculate_annualized_metrics constant_std returns_series =
     (case as_num (map snd returns_series) of
        Inl e \<Rightarrow> Inl e
      | Inr vs \<Rightarrow>
          (let ann_return = fsub (fpow (fadd (Fin 1) (series_mean vs)) 12) (Fin 1);
               ann_vol = fmul (series_std constant_std vs) (Fin (sqrt 12))
           in Inr \<lparr>Annualized_Return = ann_return,
                   Annualized_Volatility = ann_vol,
                   Sharpe_Ratio = (if ann_vol \<noteq> Fin 0 then fdiv ann_return ann_vol else Fin 0)\<rparr>))"



subsection \<open>Rolling correlation\<close>









section \<open>The loader\<close>





section \<open>Properties\<close>

subsection \<open>Returns\<close>

lemma as_num_map_Num: "as_num (map Num vs) = Inr vs"
  by (induction vs) auto

lemma ffill_id: "NaN \<notin> set vs \<Longrightarrow> ffill l vs = vs"
  by (induction vs arbitrary: l) auto

lemma map2_shift1:
  "map2 f (v # ws) (shift1 (v # ws)) = f v NaN # map (\<lambda>i. f ((v # ws) ! Suc i) ((v # ws) ! i)) [0..<length ws]"
proof -
  have "map2 f ws (take (length ws) (v # ws)) = map (\<lambda>i. f (ws ! i) ((v # ws) ! i)) [0..<length ws]"
    by (rule nth_equalityI) auto
  then show ?thesis by (simp add: shift1_def)
qed

lemma map2_shift1_map:
  "map2 f (map g (v # ws)) (shift1 (map g (v # ws))) =
     f (g v) NaN # map (\<lambda>i. f (g ((v # ws) ! Suc i)) (g ((v # ws) ! i))) [0..<length ws]"
proof -
  have "map (\<lambda>i. f ((g v # map g ws) ! Suc i) ((g v # map g ws) ! i)) [0..<length ws] =
        map (\<lambda>i. f (g ((v # ws) ! Suc i)) (g ((v # ws) ! i))) [0..<length ws]"
  proof (rule map_cong[OF refl])
    fix i assume "i \<in> set [0..<length ws]"
    then have "i < length (v # ws)" by simp
    then have "(g v # map g ws) ! i = g ((v # ws) ! i)"
      using nth_map[of i "v # ws" g] by simp
    moreover have "(g v # map g ws) ! Suc i = g ((v # ws) ! Suc i)"
      using \<open>i \<in> set [0..<length ws]\<close> by simp
    ultimately show "f ((g v # map g ws) ! Suc i) ((g v # map g ws) ! i) =
         f (g ((v # ws) ! Suc i)) (g ((v # ws) ! i))" by simp
  qed
  then show ?thesis using map2_shift1[of f "g v" "map g ws"] by simp
qed

lemma pct_finite:
  "fsub (fdiv (Fin a) (Fin b)) (Fin 1) \<noteq> NaN \<longleftrightarrow> \<not> (a = 0 \<and> b = 0)"
  by (auto simp: fsub_def inf_of_def)

lemma pct_finite_val:
  "b \<noteq> 0 \<Longrightarrow> fsub (fdiv (Fin a) (Fin b)) (Fin 1) = Fin (a / b - 1)"
  by (auto simp: fsub_def inf_of_def)

lemma pct_change_finite:
  assumes "length idx = length ps"
  shows "pct_change pad (zip idx (map (Num \<circ> Fin) ps)) =
     Inr (zip idx (map Num (case ps of [] \<Rightarrow> [] | p # qs \<Rightarrow>
        NaN # map (\<lambda>i. fsub (fdiv (Fin (ps ! Suc i)) (Fin (ps ! i))) (Fin 1)) [0..<length qs])))"
proof -
  have a: "as_num (map snd (zip idx (map (Num \<circ> Fin) ps))) = Inr (map Fin ps)"
    using assms as_num_map_Num[of "map Fin ps"] by simp
  have b: "(if pad then ffill NaN (map Fin ps) else map Fin ps) = map Fin ps"
    using ffill_id[of "map Fin ps" NaN] by auto
  have c: "map fst (zip idx (map (Num \<circ> Fin) ps)) = idx"
    using assms by simp
  have d: "map2 (\<lambda>p q. fsub (fdiv p q) (Fin 1)) (map Fin ps) (shift1 (map Fin ps)) =
       (case ps of [] \<Rightarrow> [] | p # qs \<Rightarrow>
        NaN # map (\<lambda>i. fsub (fdiv (Fin (ps ! Suc i)) (Fin (ps ! i))) (Fin 1)) [0..<length qs])"
  proof (cases ps)
    case Nil
    then show ?thesis by simp
  next
    case (Cons p qs)
    show ?thesis unfolding Cons map2_shift1_map by (simp add: fsub_def)
  qed
  show ?thesis
    by (simp only: pct_change_def a b c d sum.case Let_def)
qed

text \<open>
  C1, as the code has it. For a price column of \<open>N\<close> finite prices in which no two
  consecutive prices are both zero, \<open>calculate_returns\<close> yields exactly \<open>N - 1\<close> values, the
  \<open>i\<close>-th being \<open>p[i]/p[i-1] - 1\<close> in float arithmetic (an infinity where \<open>p[i-1]\<close> is zero,
  the real quotient minus one elsewhere); the first observation has no return and its
  date is absent from the result.
\<close>

theorem calculate_returns_values:
  assumes col: "map_of (columns prices_df) price_col = Some (map (Num \<circ> Fin) ps)"
    and len: "length (index prices_df) = length ps"
    and nz: "\<forall>i. Suc i < length ps \<longrightarrow> \<not> (ps ! i = 0 \<and> ps ! Suc i = 0)"
  shows "\<exists>returns. calculate_returns pad prices_df price_col = Inr returns \<and>
     length returns = length ps - 1 \<and>
     map fst returns = tl (index prices_df) \<and>
     (\<forall>i < length ps - 1.
        snd (returns ! i) = Num (fsub (fdiv (Fin (ps ! Suc i)) (Fin (ps ! i))) (Fin 1)) \<and>
        (ps ! i \<noteq> 0 \<longrightarrow> snd (returns ! i) = Num (Fin (ps ! Suc i / ps ! i - 1))))"
proof (cases ps)
  case Nil
  then show ?thesis using col len
    by (simp add: calculate_returns_def getitem_def pct_change_def shift1_def dropna_def)
next
  case (Cons p qs)
  define f where "f = (\<lambda>i. fsub (fdiv (Fin (ps ! Suc i)) (Fin (ps ! i))) (Fin 1))"
  obtain d ds where idx: "index prices_df = d # ds" and lds: "length ds = length qs"
    using len Cons by (cases "index prices_df") auto
  have keep: "\<And>i. i < length qs \<Longrightarrow> f i \<noteq> NaN"
    using nz Cons unfolding f_def pct_finite by auto
  have "pct_change pad (zip (index prices_df) (map (Num \<circ> Fin) ps)) =
     Inr ((d, Num NaN) # zip ds (map (Num \<circ> f) [0..<length qs]))"
    using pct_change_finite[OF len, of pad] Cons idx by (simp add: f_def comp_def)
  moreover have "dropna ((d, Num NaN) # zip ds (map (Num \<circ> f) [0..<length qs])) =
      zip ds (map (Num \<circ> f) [0..<length qs])"
    using keep by (auto simp: dropna_def isna_def filter_id_conv set_zip)
  ultimately have res: "calculate_returns pad prices_df price_col = Inr (zip ds (map (Num \<circ> f) [0..<length qs]))"
    using col by (simp add: calculate_returns_def getitem_def)
  have vals: "\<And>i. i < length qs \<Longrightarrow> ps ! i \<noteq> 0 \<Longrightarrow> f i = Fin (ps ! Suc i / ps ! i - 1)"
    unfolding f_def by (rule pct_finite_val)
  show ?thesis
    unfolding res using Cons idx lds vals by (auto simp: f_def)
qed


theorem calculate_returns_values_witness:
  "calculate_returns True
     \<lparr>index = [(2020, 1, 31), (2020, 2, 29), (2020, 3, 31)],
      columns = [(''close'', [Num (Fin 100), Num (Fin 110), Num (Fin 99)])]\<rparr> ''close'' =
   Inr [((2020, 2, 29), Num (Fin (1 / 10))), ((2020, 3, 31), Num (Fin (- (1 / 10))))]"
proof -
  let ?df = "\<lparr>index = [(2020, 1, 31), (2020, 2, 29), (2020, 3, 31)],
      columns = [(''close'', [Num (Fin 100), Num (Fin 110), Num (Fin 99)])]\<rparr>"
  have h1: "map_of (columns ?df) ''close'' = Some (map (Num \<circ> Fin) [100, 110, 99])"
    by simp
  have h2: "length (index ?df) = length [100, 110, 99 :: real]"
    by simp
  have h3: "\<forall>i. Suc i < length [100, 110, 99 :: real] \<longrightarrow>
      \<not> ([100, 110, 99 :: real] ! i = 0 \<and> [100, 110, 99 :: real] ! Suc i = 0)"
    by (auto simp: nth_Cons')
  obtain returns where r: "calculate_returns True ?df ''close'' = Inr returns"
    and l: "length returns = length [100, 110, 99 :: real] - 1"
    using calculate_returns_values[OF h1 h2 h3, of True] by blast
  have "calculate_returns True ?df ''close'' =
      Inr [((2020, 2, 29), Num (Fin (1 / 10))), ((2020, 3, 31), Num (Fin (- (1 / 10))))]"
    by (simp add: calculate_returns_def getitem_def pct_change_def shift1_def dropna_def
        isna_def fsub_def)
  with r l show ?thesis by simp
qed

text \<open>
  Two consecutive prices of zero: the quotient \<open>0/0\<close> is \<open>NaN\<close> and \<open>dropna\<close> removes it
  with the first row, so a series of length 2 with no missing value yields no return at
  all, where the claim promises one.
\<close>

theorem calculate_returns_zero_prices_counterexample:
  "calculate_returns True
     \<lparr>index = [(2020, 1, 31), (2020, 2, 29)],
      columns = [(''close'', [Num (Fin 0), Num (Fin 0)])]\<rparr> ''close'' = Inr [] \<and>
   calculate_returns False
     \<lparr>index = [(2020, 1, 31), (2020, 2, 29)],
      columns = [(''close'', [Num (Fin 0), Num (Fin 0)])]\<rparr> ''close'' = Inr [] \<and>
   length ([] :: series) \<noteq> length [Num (Fin 0), Num (Fin 0)] - 1"
  by (simp add: calculate_returns_def getitem_def pct_change_def shift1_def dropna_def
      isna_def fsub_def)

subsection \<open>Regime classification\<close>

text \<open>
  C3. \<open>classify_inflation_regime\<close> returns a label for every real inflation rate, and the
  three labels cut the real line into three pieces: below 0.01 the rate is Low, from 0.01
  (included) to 0.03 (excluded) Moderate, from 0.03 on High; the boundary values 0.01 and
  0.03 are Moderate and High.
\<close>

theorem classify_inflation_regime_partition:
  "(classify_inflation_regime (Num (Fin x)) = Inr ''Low (<1%)'' \<longleftrightarrow> x < 0.01) \<and>
   (classify_inflation_regime (Num (Fin x)) = Inr ''Moderate (1-3%)'' \<longleftrightarrow> 0.01 \<le> x \<and> x < 0.03) \<and>
   (classify_inflation_regime (Num (Fin x)) = Inr ''High (>3%)'' \<longleftrightarrow> 0.03 \<le> x) \<and>
   classify_inflation_regime (Num (Fin 0.01)) = Inr ''Moderate (1-3%)'' \<and>
   classify_inflation_regime (Num (Fin 0.03)) = Inr ''High (>3%)''"
  by auto

subsection \<open>Real returns\<close>

lemma series_sub_num:
  assumes "length ns = length idx" "length is = length idx"
  shows "series_sub (zip idx (map Num ns)) (zip idx (map Num is)) =
     Inr (zip idx (map Num (map2 fsub ns is)))"
  using assms by (simp add: series_sub_def as_num_map_Num)

lemma map_of_setitem:
  "map_of (columns (setitem df c col)) = (map_of (columns df))(c \<mapsto> col)"
  by (simp add: setitem_def update_conv')

lemma index_setitem: "index (setitem df c col) = index df"
  by (simp add: setitem_def)

text \<open>
  C4. On a frame whose nominal returns and inflation rates are floats,
  \<open>calculate_real_returns\<close> succeeds and the real return of every row is the nominal
  return minus the inflation rate of that row, the plain difference of the two numbers
  where both are finite. The witness is the scenario of the specification: inflation
  0.02, 0.02, 0.04 and nominal returns 0.01, -0.01, 0.02 give -0.01, -0.03, -0.02.
\<close>

theorem calculate_real_returns_additive:
  assumes n: "map_of (columns (h r)) ''Nominal_Return'' = Some (map Num ns)"
    and i: "map_of (columns (h r)) ''Inflation_Rate'' = Some (map Num is)"
    and ln: "length ns = length (index (h r))"
    and li: "length is = length (index (h r))"
  shows "\<exists>h'. calculate_real_returns r h = (Inr r, h') \<and>
     map_of (columns (h' r)) ''Real_Return'' = Some (map Num (map2 fsub ns is)) \<and>
     length (map2 fsub ns is) = length (index (h' r)) \<and>
     (\<forall>k < length (index (h r)). map2 fsub ns is ! k = fsub (ns ! k) (is ! k) \<and>
        (\<forall>a b. ns ! k = Fin a \<and> is ! k = Fin b \<longrightarrow> map2 fsub ns is ! k = Fin (a - b)))"
  using assms
  by (auto simp: calculate_real_returns_def getitem_def series_sub_num map_of_setitem
      index_setitem fsub_def)

theorem calculate_real_returns_additive_witness:
  "fst (calculate_real_returns 0
      (\<lambda>_. \<lparr>index = [(2020, 1, 31), (2020, 2, 29), (2020, 3, 31)],
         columns = [(''Inflation_Rate'', [Num (Fin 0.02), Num (Fin 0.02), Num (Fin 0.04)]),
                    (''Nominal_Return'', [Num (Fin 0.01), Num (Fin (- 0.01)), Num (Fin 0.02)])]\<rparr>)) = Inr 0 \<and>
   map_of (columns (snd (calculate_real_returns 0
      (\<lambda>_. \<lparr>index = [(2020, 1, 31), (2020, 2, 29), (2020, 3, 31)],
         columns = [(''Inflation_Rate'', [Num (Fin 0.02), Num (Fin 0.02), Num (Fin 0.04)]),
                    (''Nominal_Return'', [Num (Fin 0.01), Num (Fin (- 0.01)), Num (Fin 0.02)])]\<rparr>)) 0))
     ''Real_Return'' = Some [Num (Fin (- 0.01)), Num (Fin (- 0.03)), Num (Fin (- 0.02))]"
proof -
  let ?h = "\<lambda>_::ref. \<lparr>index = [(2020, 1, 31), (2020, 2, 29), (2020, 3, 31)],
         columns = [(''Inflation_Rate'', [Num (Fin 0.02), Num (Fin 0.02), Num (Fin 0.04)]),
                    (''Nominal_Return'', [Num (Fin 0.01), Num (Fin (- 0.01)), Num (Fin 0.02)])]\<rparr>"
  have n: "map_of (columns (?h 0)) ''Nominal_Return'' = Some (map Num [Fin 0.01, Fin (- 0.01), Fin 0.02])"
    by simp
  have i: "map_of (columns (?h 0)) ''Inflation_Rate'' = Some (map Num [Fin 0.02, Fin 0.02, Fin 0.04])"
    by simp
  obtain h' where "calculate_real_returns 0 ?h = (Inr 0, h')"
    and "map_of (columns (h' 0)) ''Real_Return'' =
       Some (map Num (map2 fsub [Fin 0.01, Fin (- 0.01), Fin 0.02] [Fin 0.02, Fin 0.02, Fin 0.04]))"
    using calculate_real_returns_additive[where h = ?h and r = 0, OF n i] by auto
  then show ?thesis by (simp add: fsub_def)
qed


subsection \<open>What the calculator does to the frame it is given\<close>

lemma calculate_real_returns_effect:
  "calculate_real_returns r h = (res, h') \<Longrightarrow>
     (res = Inr r \<or> (\<exists>e. res = Inl e \<and> h' = h)) \<and>
     (\<forall>r'. r' \<noteq> r \<longrightarrow> h' r' = h r') \<and>
     index (h' r) = index (h r) \<and>
     (\<forall>c. c \<noteq> ''Real_Return'' \<longrightarrow> map_of (columns (h' r)) c = map_of (columns (h r)) c) \<and>
     (res = Inr r \<longrightarrow> map_of (columns (h' r)) ''Real_Return'' \<noteq> None)"
  by (auto simp: calculate_real_returns_def map_of_setitem index_setitem
      split: sum.splits)

lemma add_inflation_regimes_effect:
  "add_inflation_regimes r h = (res, h') \<Longrightarrow>
     (res = Inr r \<or> (\<exists>e. res = Inl e \<and> h' = h)) \<and>
     (\<forall>r'. r' \<noteq> r \<longrightarrow> h' r' = h r') \<and>
     index (h' r) = index (h r) \<and>
     (\<forall>c. c \<noteq> ''Inflation_Regime'' \<longrightarrow> map_of (columns (h' r)) c = map_of (columns (h r)) c) \<and>
     (res = Inr r \<longrightarrow> map_of (columns (h' r)) ''Inflation_Regime'' \<noteq> None)"
  by (auto simp: add_inflation_regimes_def map_of_setitem index_setitem
      split: sum.splits)

lemma calculate_cumulative_returns_effect:
  "calculate_cumulative_returns r h = (res, h') \<Longrightarrow>
     (res = Inr r \<or> (\<exists>e. res = Inl e)) \<and>
     (\<forall>r'. r' \<noteq> r \<longrightarrow> h' r' = h r') \<and>
     index (h' r) = index (h r) \<and>
     (\<forall>c. c \<noteq> ''Cumulative_Nominal'' \<and> c \<noteq> ''Cumulative_Real'' \<longrightarrow>
          map_of (columns (h' r)) c = map_of (columns (h r)) c) \<and>
     (res = Inr r \<longrightarrow> map_of (columns (h' r)) ''Cumulative_Nominal'' \<noteq> None \<and>
          map_of (columns (h' r)) ''Cumulative_Real'' \<noteq> None)"
  by (auto simp: calculate_cumulative_returns_def map_of_setitem index_setitem Let_def
      split: sum.splits)


text \<open>
  C8, as the code has it. \<open>calculate_real_returns\<close>, \<open>add_inflation_regimes\<close> and
  \<open>calculate_cumulative_returns\<close> work on the caller's frame: what they return is the
  reference they were given, and the frame it denotes has the new column (or columns)
  assigned. Nothing else changes: every other frame, the index and every other column
  of the frame are as before.
\<close>

theorem calculator_modifies_frame_in_place:
  "(\<forall>res h'. calculate_real_returns r h = (res, h') \<longrightarrow>
      (res = Inr r \<or> (\<exists>e. res = Inl e \<and> h' = h)) \<and>
      (\<forall>r'. r' \<noteq> r \<longrightarrow> h' r' = h r') \<and>
      index (h' r) = index (h r) \<and>
      (\<forall>c. c \<noteq> ''Real_Return'' \<longrightarrow> map_of (columns (h' r)) c = map_of (columns (h r)) c) \<and>
      (res = Inr r \<longrightarrow> map_of (columns (h' r)) ''Real_Return'' \<noteq> None)) \<and>
   (\<forall>res h'. add_inflation_regimes r h = (res, h') \<longrightarrow>
      (res = Inr r \<or> (\<exists>e. res = Inl e \<and> h' = h)) \<and>
      (\<forall>r'. r' \<noteq> r \<longrightarrow> h' r' = h r') \<and>
      index (h' r) = index (h r) \<and>
      (\<forall>c. c \<noteq> ''Inflation_Regime'' \<longrightarrow> map_of (columns (h' r)) c = map_of (columns (h r)) c) \<and>
      (res = Inr r \<longrightarrow> map_of (columns (h' r)) ''Inflation_Regime'' \<noteq> None)) \<and>
   (\<forall>res h'. calculate_cumulative_returns r h = (res, h') \<longrightarrow>
      (res = Inr r \<or> (\<exists>e. res = Inl e)) \<and>
      (\<forall>r'. r' \<noteq> r \<longrightarrow> h' r' = h r') \<and>
      index (h' r) = index (h r) \<and>
      (\<forall>c. c \<noteq> ''Cumulative_Nominal'' \<and> c \<noteq> ''Cumulative_Real'' \<longrightarrow>
           map_of (columns (h' r)) c = map_of (columns (h r)) c) \<and>
      (res = Inr r \<longrightarrow> map_of (columns (h' r)) ''Cumulative_Nominal'' \<noteq> None \<and>
           map_of (columns (h' r)) ''Cumulative_Real'' \<noteq> None))"
  using calculate_real_returns_effect[of r h] add_inflation_regimes_effect[of r h]
    calculate_cumulative_returns_effect[of r h]
  by blast

theorem calculator_modifies_frame_in_place_witness:
  "fst (calculate_real_returns 0 (\<lambda>_. \<lparr>index = [(2020, 1, 31)],
        columns = [(''Inflation_Rate'', [Num (Fin 0.02)]), (''Nominal_Return'', [Num (Fin 0.01)])]\<rparr>)) = Inr 0 \<and>
   snd (calculate_real_returns 0 (\<lambda>_. \<lparr>index = [(2020, 1, 31)],
        columns = [(''Inflation_Rate'', [Num (Fin 0.02)]), (''Nominal_Return'', [Num (Fin 0.01)])]\<rparr>)) 1 = \<lparr>index = [(2020, 1, 31)],
        columns = [(''Inflation_Rate'', [Num (Fin 0.02)]), (''Nominal_Return'', [Num (Fin 0.01)])]\<rparr> \<and>
   index (snd (calculate_real_returns 0 (\<lambda>_. \<lparr>index = [(2020, 1, 31)],
        columns = [(''Inflation_Rate'', [Num (Fin 0.02)]), (''Nominal_Return'', [Num (Fin 0.01)])]\<rparr>)) 0) = [(2020, 1, 31)] \<and>
   map_of (columns (snd (calculate_real_returns 0 (\<lambda>_. \<lparr>index = [(2020, 1, 31)],
        columns = [(''Inflation_Rate'', [Num (Fin 0.02)]), (''Nominal_Return'', [Num (Fin 0.01)])]\<rparr>)) 0)) ''Nominal_Return'' =
     Some [Num (Fin 0.01)] \<and>
   map_of (columns (snd (calculate_real_returns 0 (\<lambda>_. \<lparr>index = [(2020, 1, 31)],
        columns = [(''Inflation_Rate'', [Num (Fin 0.02)]), (''Nominal_Return'', [Num (Fin 0.01)])]\<rparr>)) 0)) ''Real_Return'' \<noteq> None"
proof -
  let ?h = "\<lambda>_::ref. \<lparr>index = [(2020, 1, 31)],
        columns = [(''Inflation_Rate'', [Num (Fin 0.02)]), (''Nominal_Return'', [Num (Fin 0.01)])]\<rparr>"
  obtain res h' where e: "calculate_real_returns 0 ?h = (res, h')"
    by (cases "calculate_real_returns 0 ?h")
  have ok: "res = Inr 0"
    using e by (simp add: calculate_real_returns_def getitem_def series_sub_def)
  note k = calculator_modifies_frame_in_place[where r = 0 and h = ?h,
      THEN conjunct1, rule_format, OF e]
  have k1: "h' 1 = ?h 1"
    using k by simp
  have k2: "index (h' 0) = index (?h 0)"
    using k by simp
  have k3: "map_of (columns (h' 0)) ''Nominal_Return'' = map_of (columns (?h 0)) ''Nominal_Return''"
    using k by simp
  have k4: "map_of (columns (h' 0)) ''Real_Return'' \<noteq> None"
    using k ok by simp
  show ?thesis unfolding e using ok k1 k2 k3 k4 by simp
qed

text \<open>
  The frame the caller passed is not left unchanged: after each of the three calls it
  holds a column it did not hold before.
\<close>

theorem calculator_input_frame_changed_counterexample:
  "snd (calculate_real_returns 0 (\<lambda>_. \<lparr>index = [(2020, 1, 31)],
        columns = [(''Inflation_Rate'', [Num (Fin 0.02)]), (''Nominal_Return'', [Num (Fin 0.01)])]\<rparr>)) 0 \<noteq> \<lparr>index = [(2020, 1, 31)],
        columns = [(''Inflation_Rate'', [Num (Fin 0.02)]), (''Nominal_Return'', [Num (Fin 0.01)])]\<rparr> \<and>
   snd (add_inflation_regimes 0 (\<lambda>_. \<lparr>index = [(2020, 1, 31)],
        columns = [(''Inflation_Rate'', [Num (Fin 0.02)]), (''Nominal_Return'', [Num (Fin 0.01)])]\<rparr>)) 0 \<noteq> \<lparr>index = [(2020, 1, 31)],
        columns = [(''Inflation_Rate'', [Num (Fin 0.02)]), (''Nominal_Return'', [Num (Fin 0.01)])]\<rparr> \<and>
   snd (calculate_cumulative_returns 0 (\<lambda>_. \<lparr>index = [(2020, 1, 31)],
        columns = [(''Inflation_Rate'', [Num (Fin 0.02)]), (''Nominal_Return'', [Num (Fin 0.01)]),
                   (''Real_Return'', [Num (Fin (- 0.01))])]\<rparr>)) 0 \<noteq> \<lparr>index = [(2020, 1, 31)],
        columns = [(''Inflation_Rate'', [Num (Fin 0.02)]), (''Nominal_Return'', [Num (Fin 0.01)]),
                   (''Real_Return'', [Num (Fin (- 0.01))])]\<rparr>"
  by (simp add: calculate_real_returns_def add_inflation_regimes_def
      calculate_cumulative_returns_def getitem_def series_sub_def setitem_def cumulative_def
      cumprod_def fsub_def)

subsection \<open>Cumulative returns\<close>

lemma cumprod_from_fin:
  "cumprod_from (Fin a) (map Fin xs) =
     map (\<lambda>t. Fin (a * prod_list (take (Suc t) xs))) [0..<length xs]"
proof (induction xs arbitrary: a)
  case Nil
  then show ?case by simp
next
  case (Cons x xs)
  have "[0..<length (x # xs)] = 0 # map Suc [0..<length xs]"
    by (simp add: upt_conv_Cons map_Suc_upt del: upt_Suc)
  then show ?case using Cons.IH[of "a * x"]
    by (simp add: o_def mult.assoc del: upt_Suc)
qed

lemma cumulative_fin:
  "cumulative (map (Num \<circ> Fin) rs) =
     Inr (map Num (compounded rs))"
proof -
  have a: "as_num (map (Num \<circ> Fin) rs) = Inr (map Fin rs)"
    using as_num_map_Num[of "map Fin rs"] by simp
  have b: "map (fadd (Fin 1)) (map Fin rs) = map Fin (map (\<lambda>r. 1 + r) rs)"
    by simp
  have c: "cumprod (map (fadd (Fin 1)) (map Fin rs)) =
      map (\<lambda>t. Fin (prod_list (map (\<lambda>r. 1 + r) (take (Suc t) rs)))) [0..<length rs]"
    unfolding b cumprod_def cumprod_from_fin by (simp add: take_map)
  show ?thesis
    unfolding cumulative_def a sum.case c compounded_def by (simp add: fsub_def o_def)
qed

lemma length_compounded: "length (compounded rs) = length rs"
  by (simp add: compounded_def)

lemma nth_compounded:
  "t < length rs \<Longrightarrow>
     compounded rs ! t = Fin (prod_list (map (\<lambda>r. 1 + r) (take (Suc t) rs)) - 1)"
  by (simp add: compounded_def del: upt_Suc take_Suc_Cons)

lemma reconstruct_fin:
  assumes t: "t < length rs" and nz: "\<forall>i<t. rs ! i \<noteq> - 1"
  shows "reconstruct_return
           (compounded rs) t = Fin (rs ! t)"
proof -
  let ?P = "\<lambda>k. prod_list (map (\<lambda>r. 1 + r) (take k rs))"
  have step: "?P (Suc t) = ?P t * (1 + rs ! t)"
    using t by (simp add: take_Suc_conv_app_nth)
  have nzp: "?P t \<noteq> 0"
  proof -
    have "\<And>x. x \<in> set (take t rs) \<Longrightarrow> 1 + x \<noteq> 0"
    proof -
      fix x assume "x \<in> set (take t rs)"
      then obtain i where "i < t" "i < length rs" "x = rs ! i"
        using t by (auto simp: in_set_conv_nth)
      then show "1 + x \<noteq> 0" using nz by auto
    qed
    then show ?thesis by (auto simp: prod_list_zero_iff)
  qed
  show ?thesis
  proof (cases t)
    case 0
    then show ?thesis using t nth_compounded[of 0 rs]
      by (cases rs) (simp_all add: reconstruct_return_def fsub_def)
  next
    case (Suc k)
    have k: "k < length rs" using t Suc by simp
    have "reconstruct_return (compounded rs) t =
          fsub (fdiv (Fin (?P (Suc t))) (Fin (?P t))) (Fin 1)"
      using t k Suc nth_compounded[of t rs] nth_compounded[of k rs]
      by (simp add: reconstruct_return_def del: take_Suc_Cons)
    also have "\<dots> = Fin (?P (Suc t) / ?P t - 1)"
      using nzp by (simp add: fsub_def)
    also have "?P (Suc t) / ?P t - 1 = rs ! t"
      unfolding step using nzp by simp
    finally show ?thesis .
  qed
qed


text \<open>
  C5, as the code has it. On a frame with finite nominal and real returns,
  \<open>calculate_cumulative_returns\<close> succeeds and fills \<open>Cumulative_Nominal\<close> and
  \<open>Cumulative_Real\<close>, each from its own return column, with the product of \<open>1 + r i\<close> over
  the periods up to \<open>t\<close> minus 1. Over exact arithmetic the return of period \<open>t\<close> is read
  back from the cumulative series as \<open>(1 + C t) / (1 + C (t - 1)) - 1\<close> (with 0 before the
  first period) whenever no earlier return is -1, that is whenever \<open>1 + C (t - 1)\<close> is
  not zero.
\<close>

theorem calculate_cumulative_returns_compounding:
  assumes n: "map_of (columns (h r)) ''Nominal_Return'' = Some (map (Num \<circ> Fin) ns)"
    and q: "map_of (columns (h r)) ''Real_Return'' = Some (map (Num \<circ> Fin) qs)"
    and ln: "length ns = length (index (h r))"
    and lq: "length qs = length (index (h r))"
  shows "\<exists>h'. calculate_cumulative_returns r h = (Inr r, h') \<and>
     map_of (columns (h' r)) ''Cumulative_Nominal'' = Some (map Num (compounded ns)) \<and>
     map_of (columns (h' r)) ''Cumulative_Real'' = Some (map Num (compounded qs)) \<and>
     (\<forall>t<length ns.
        compounded ns ! t = Fin (prod_list (map (\<lambda>r. 1 + r) (take (Suc t) ns)) - 1) \<and>
        ((\<forall>i<t. ns ! i \<noteq> - 1) \<longrightarrow> reconstruct_return (compounded ns) t = Fin (ns ! t))) \<and>
     (\<forall>t<length qs.
        compounded qs ! t = Fin (prod_list (map (\<lambda>r. 1 + r) (take (Suc t) qs)) - 1) \<and>
        ((\<forall>i<t. qs ! i \<noteq> - 1) \<longrightarrow> reconstruct_return (compounded qs) t = Fin (qs ! t)))"
proof -
  have gn: "getitem (h r) ''Nominal_Return'' = Inr (zip (index (h r)) (map (Num \<circ> Fin) ns))"
    using n by (simp add: getitem_def)
  have sn: "map snd (zip (index (h r)) (map (Num \<circ> Fin) ns)) = map (Num \<circ> Fin) ns"
    using ln by simp
  let ?h1 = "h(r := setitem (h r) ''Cumulative_Nominal'' (map Num (compounded ns)))"
  have gq: "getitem (?h1 r) ''Real_Return'' = Inr (zip (index (h r)) (map (Num \<circ> Fin) qs))"
    using q by (simp add: getitem_def map_of_setitem index_setitem)
  have sq: "map snd (zip (index (h r)) (map (Num \<circ> Fin) qs)) = map (Num \<circ> Fin) qs"
    using lq by simp
  have run: "calculate_cumulative_returns r h =
      (Inr r, ?h1(r := setitem (?h1 r) ''Cumulative_Real'' (map Num (compounded qs))))"
    unfolding calculate_cumulative_returns_def gn sum.case sn cumulative_fin Let_def gq sq
    by simp
  show ?thesis
    unfolding run
    by (auto simp: map_of_setitem nth_compounded reconstruct_fin)
qed

theorem calculate_cumulative_returns_compounding_witness:
  "fst (calculate_cumulative_returns 0 (\<lambda>_. \<lparr>index = [(2020, 1, 31), (2020, 2, 29), (2020, 3, 31)],
           columns = [(''Nominal_Return'', [Num (Fin 0.01), Num (Fin (- 0.01)), Num (Fin 0.02)]),
                      (''Real_Return'', [Num (Fin (- 0.01)), Num (Fin (- 0.03)), Num (Fin (- 0.02))])]\<rparr>)) = Inr 0 \<and>
   map_of (columns (snd (calculate_cumulative_returns 0 (\<lambda>_. \<lparr>index = [(2020, 1, 31), (2020, 2, 29), (2020, 3, 31)],
           columns = [(''Nominal_Return'', [Num (Fin 0.01), Num (Fin (- 0.01)), Num (Fin 0.02)]),
                      (''Real_Return'', [Num (Fin (- 0.01)), Num (Fin (- 0.03)), Num (Fin (- 0.02))])]\<rparr>)) 0)) ''Cumulative_Nominal'' =
     Some [Num (Fin (1 / 100)), Num (Fin (- (1 / 10000))), Num (Fin (9949 / 500000))] \<and>
   reconstruct_return [Fin (1 / 100), Fin (- (1 / 10000)), Fin (9949 / 500000)] 2 = Fin 0.02"
proof -
  let ?h = "\<lambda>_::ref. \<lparr>index = [(2020, 1, 31), (2020, 2, 29), (2020, 3, 31)],
           columns = [(''Nominal_Return'', [Num (Fin 0.01), Num (Fin (- 0.01)), Num (Fin 0.02)]),
                      (''Real_Return'', [Num (Fin (- 0.01)), Num (Fin (- 0.03)), Num (Fin (- 0.02))])]\<rparr>"
  have n: "map_of (columns (?h 0)) ''Nominal_Return'' = Some (map (Num \<circ> Fin) [0.01, - 0.01, 0.02])"
    by simp
  have q: "map_of (columns (?h 0)) ''Real_Return'' = Some (map (Num \<circ> Fin) [- 0.01, - 0.03, - 0.02])"
    by simp
  have c: "compounded [0.01, - 0.01, 0.02] = [Fin (1 / 100), Fin (- (1 / 10000)), Fin (9949 / 500000)]"
    by (simp add: compounded_def upt_rec[of 0] upt_rec[of 1] upt_rec[of 2] numeral_2_eq_2
        numeral_3_eq_3)
  note k = calculate_cumulative_returns_compounding[where h = ?h and r = 0, OF n q]
  then obtain h' where r: "calculate_cumulative_returns 0 ?h = (Inr 0, h')"
    and cn: "map_of (columns (h' 0)) ''Cumulative_Nominal'' = Some (map Num (compounded [0.01, - 0.01, 0.02]))"
    and rec: "\<forall>t<length [0.01, - 0.01, 0.02 :: real]. (\<forall>i<t. [0.01, - 0.01, 0.02 :: real] ! i \<noteq> - 1) \<longrightarrow>
        reconstruct_return (compounded [0.01, - 0.01, 0.02]) t = Fin ([0.01, - 0.01, 0.02] ! t)"
    by auto
  have "reconstruct_return (compounded [0.01, - 0.01, 0.02]) 2 = Fin ([0.01, - 0.01, 0.02] ! 2)"
  proof -
    have "\<forall>i<(2::nat). [0.01, - 0.01, 0.02 :: real] ! i \<noteq> - 1"
      by (auto dest!: less_2_cases)
    then show ?thesis using rec[rule_format, of 2] by simp
  qed
  then show ?thesis using r cn unfolding c by simp
qed

text \<open>
  After a return of -1 the cumulative return stays at -1, the quotient of the
  reconstruction is \<open>0/0\<close> and the later return 0.5 is not recovered.
\<close>

theorem cumulative_not_invertible_counterexample:
  "fst (calculate_cumulative_returns 0 (\<lambda>_. \<lparr>index = [(2020, 1, 31), (2020, 2, 29)],
           columns = [(''Nominal_Return'', [Num (Fin (- 1)), Num (Fin 0.5)]),
                      (''Real_Return'', [Num (Fin (- 1)), Num (Fin 0.5)])]\<rparr>)) = Inr 0 \<and>
   map_of (columns (snd (calculate_cumulative_returns 0 (\<lambda>_. \<lparr>index = [(2020, 1, 31), (2020, 2, 29)],
           columns = [(''Nominal_Return'', [Num (Fin (- 1)), Num (Fin 0.5)]),
                      (''Real_Return'', [Num (Fin (- 1)), Num (Fin 0.5)])]\<rparr>)) 0)) ''Cumulative_Nominal'' =
     Some [Num (Fin (- 1)), Num (Fin (- 1))] \<and>
   reconstruct_return [Fin (- 1), Fin (- 1)] 1 = NaN \<and>
   reconstruct_return [Fin (- 1), Fin (- 1)] 1 \<noteq> Fin 0.5"
  by (simp add: calculate_cumulative_returns_def getitem_def setitem_def cumulative_def
      cumprod_def fsub_def reconstruct_return_def)

subsection \<open>Annualized metrics\<close>









lemma fdiv_NaN_right: "fdiv a NaN = NaN"
  by (cases a) auto


lemma fpow_fin: "fpow (Fin a) n = Fin (a ^ n)"
  by (induction n) auto




text \<open>
  C10. A series of exactly one observation has no sample standard deviation: the
  annualized volatility is \<open>NaN\<close>, and since \<open>NaN\<close> is not equal to 0 the guard does not
  apply and the Sharpe ratio is \<open>NaN\<close> as well, not 0.
\<close>

theorem calculate_annualized_metrics_single_observation:
  "\<exists>m. calculate_annualized_metrics constant_std [(d, Num v)] = Inr m \<and>
     Annualized_Volatility m = NaN \<and> Sharpe_Ratio m = NaN \<and> Sharpe_Ratio m \<noteq> Fin 0 \<and>
     (\<forall>x. v = Fin x \<longrightarrow> Annualized_Return m = Fin ((1 + x) ^ 12 - 1))"
proof -
  have std: "series_std constant_std [v] = NaN"
    by (simp add: series_std_def observations_def Let_def)
  have mean: "\<And>x. series_mean [Fin x] = Fin x"
    by (simp add: series_mean_def observations_def fsum_def Let_def)
  show ?thesis
    by (auto simp: calculate_annualized_metrics_def Let_def std mean fpow_fin fsub_def
        fdiv_NaN_right)
qed

theorem calculate_annualized_metrics_single_observation_witness:
  "calculate_annualized_metrics (\<lambda>_. Fin 0) [((2020, 1, 31), Num (Fin 0.01))] =
     Inr \<lparr>Annualized_Return = Fin ((1 + 0.01) ^ 12 - 1), Annualized_Volatility = NaN,
          Sharpe_Ratio = NaN\<rparr>"
proof -
  obtain m where m: "calculate_annualized_metrics (\<lambda>_. Fin 0) [((2020, 1, 31), Num (Fin 0.01))] = Inr m"
    and v: "Annualized_Volatility m = NaN" and s: "Sharpe_Ratio m = NaN"
    and r: "\<forall>x. Fin 0.01 = Fin x \<longrightarrow> Annualized_Return m = Fin ((1 + x) ^ 12 - 1)"
    using calculate_annualized_metrics_single_observation[of "\<lambda>_. Fin 0" "(2020, 1, 31)" "Fin 0.01"]
    by blast
  have "Annualized_Return m = Fin ((1 + 0.01) ^ 12 - 1)"
    using r by blast
  then have "m = \<lparr>Annualized_Return = Fin ((1 + 0.01) ^ 12 - 1), Annualized_Volatility = NaN,
          Sharpe_Ratio = NaN\<rparr>"
    using v s by (cases m) simp
  then show ?thesis using m by simp
qed

subsection \<open>Rolling correlation\<close>
































subsection \<open>Alignment\<close>

lemma set_fold_remove1_distinct:
  "distinct b \<Longrightarrow> set (fold remove1 a b) = set b - set a \<and> distinct (fold remove1 a b)"
proof (induction a arbitrary: b)
  case Nil
  then show ?case by simp
next
  case (Cons x a)
  have "distinct (remove1 x b)" using Cons.prems by simp
  from Cons.IH[OF this] show ?case using Cons.prems by auto
qed

lemma union_index_strict:
  assumes a: "sorted_wrt (<) a" and b: "sorted_wrt (<) b"
  shows "sorted_wrt (<) (union_index a b) \<and> set (union_index a b) = set a \<union> set b"
proof -
  have da: "distinct a" and db: "distinct b"
    using a b by (simp_all add: strict_sorted_iff)
  have "distinct (a @ fold remove1 a b)" "set (a @ fold remove1 a b) = set a \<union> set b"
    using da set_fold_remove1_distinct[OF db, of a] by auto
  then have "sorted_wrt (<) (sort (a @ fold remove1 a b))"
    "set (sort (a @ fold remove1 a b)) = set a \<union> set b"
    by (simp_all add: strict_sorted_iff)
  then show ?thesis using a b by (auto simp: union_index_def)
qed

lemma reindex_distinct:
  assumes "distinct (map fst s)"
  shows "reindex s idx = Inr (map (lookup_cell s) idx)"
proof -
  have "map snd s = map (lookup_cell s) (map fst s)"
    using assms by (auto simp: lookup_cell_def)
  then show ?thesis by (auto simp: reindex_def assms)
qed

lemma select_rows:
  "map ((!) xs) (filter (\<lambda>i. P (xs ! i)) [0..<length xs]) = filter P xs"
proof (induction xs rule: rev_induct)
  case Nil
  then show ?case by simp
next
  case (snoc x xs)
  have f: "filter (\<lambda>i. P ((xs @ [x]) ! i)) [0..<length xs] = filter (\<lambda>i. P (xs ! i)) [0..<length xs]"
    by (rule filter_cong) (auto simp: nth_append)
  have m: "map ((!) (xs @ [x])) (filter (\<lambda>i. P (xs ! i)) [0..<length xs]) =
      map ((!) xs) (filter (\<lambda>i. P (xs ! i)) [0..<length xs])"
    by (rule map_cong) (auto simp: nth_append)
  show ?case using snoc by (simp add: f m)
qed

lemma select_rows_map:
  "map ((!) (map f xs)) (filter (\<lambda>i. P (xs ! i)) [0..<length xs]) = map f (filter P xs)"
proof -
  have "map ((!) (map f xs)) (filter (\<lambda>i. P (xs ! i)) [0..<length xs]) =
      map (\<lambda>i. f (xs ! i)) (filter (\<lambda>i. P (xs ! i)) [0..<length xs])"
    by (rule map_cong) auto
  also have "\<dots> = map f (map ((!) xs) (filter (\<lambda>i. P (xs ! i)) [0..<length xs]))"
    by simp
  finally show ?thesis by (simp only: select_rows)
qed

lemma dropna_frame_two:
  "dropna_frame \<lparr>index = idx, columns = [(k1, map f idx), (k2, map g idx)]\<rparr> =
     \<lparr>index = filter (\<lambda>d. \<not> isna (f d) \<and> \<not> isna (g d)) idx,
      columns = [(k1, map f (filter (\<lambda>d. \<not> isna (f d) \<and> \<not> isna (g d)) idx)),
                 (k2, map g (filter (\<lambda>d. \<not> isna (f d) \<and> \<not> isna (g d)) idx))]\<rparr>"
proof -
  let ?P = "\<lambda>d. \<not> isna (f d) \<and> \<not> isna (g d)"
  let ?df = "\<lparr>index = idx, columns = [(k1, map f idx), (k2, map g idx)]\<rparr>"
  have k: "filter (row_complete ?df) [0..<length idx] = filter (\<lambda>i. ?P (idx ! i)) [0..<length idx]"
    by (rule filter_cong) (auto simp: row_complete_def)
  have r0: "map ((!) idx) (filter (\<lambda>i. ?P (idx ! i)) [0..<length idx]) = filter ?P idx"
    by (rule select_rows)
  have r1: "map ((!) (map f idx)) (filter (\<lambda>i. ?P (idx ! i)) [0..<length idx]) = map f (filter ?P idx)"
    by (rule select_rows_map)
  have r2: "map ((!) (map g idx)) (filter (\<lambda>i. ?P (idx ! i)) [0..<length idx]) = map g (filter ?P idx)"
    by (rule select_rows_map)
  show ?thesis
    unfolding dropna_frame_def Let_def
    by (simp add: k r0 r1 r2)
qed


text \<open>
  C2, as the code has it. Let the inflation frame and the return series be such that,
  after normalization to the month end, the dates of each are strictly increasing: each
  input is sorted by date and has at most one observation in a month. Then \<open>align_data\<close>
  returns a frame, a month-end date is in its index exactly when both normalized inputs
  have a value for it that is not missing, its dates are unique and strictly increasing,
  its columns are \<open>Inflation_Rate\<close> and \<open>Nominal_Return\<close>, as long as the index, and no cell
  is missing.
\<close>

theorem align_data_complete_rows:
  assumes col: "map_of (columns cpi_df) ''Inflation_Rate'' = Some inflation"
    and len: "length inflation = length (index cpi_df)"
    and cpi: "sorted_wrt (<) (map to_month_end (index cpi_df))"
    and ret: "sorted_wrt (<) (map (to_month_end \<circ> fst) returns_series)"
  shows "\<exists>df. align_data cpi_df returns_series = Inr df \<and>
     (\<forall>d. d \<in> set (index df) \<longleftrightarrow>
        (\<exists>v. map_of (zip (map to_month_end (index cpi_df)) inflation) d = Some v \<and> \<not> isna v) \<and>
        (\<exists>r. map_of (map (\<lambda>dc. (to_month_end (fst dc), snd dc)) returns_series) d = Some r \<and>
             \<not> isna r)) \<and>
     sorted_wrt (<) (index df) \<and> distinct (index df) \<and>
     map fst (columns df) = [''Inflation_Rate'', ''Nominal_Return''] \<and>
     (\<forall>kc \<in> set (columns df). length (snd kc) = length (index df) \<and>
        (\<forall>c \<in> set (snd kc). \<not> isna c))"
proof -
  define a where "a = map to_month_end (index cpi_df)"
  define s1 where "s1 = zip a inflation"
  define s2 where "s2 = map (\<lambda>dc. (to_month_end (fst dc), snd dc)) returns_series"
  define idx where "idx = union_index (map fst s1) (map fst s2)"
  define P where "P = (\<lambda>d. \<not> isna (lookup_cell s1 d) \<and> \<not> isna (lookup_cell s2 d))"
  have f1: "map fst s1 = a"
    using len by (simp add: s1_def a_def)
  have f2: "map fst s2 = map (to_month_end \<circ> fst) returns_series"
    by (simp add: s2_def)
  have sa: "sorted_wrt (<) (map fst s1)" and sb: "sorted_wrt (<) (map fst s2)"
    using cpi ret by (simp_all add: f1 f2 a_def)
  have d1: "distinct (map fst s1)" and d2: "distinct (map fst s2)"
    using sa sb by (simp_all add: strict_sorted_iff)
  have u: "sorted_wrt (<) idx" "set idx = set (map fst s1) \<union> set (map fst s2)"
    using union_index_strict[OF sa sb] by (simp_all add: idx_def)
  have g: "getitem (cpi_df\<lparr>index := map to_month_end (index cpi_df)\<rparr>) ''Inflation_Rate'' = Inr s1"
    using col by (simp add: getitem_def s1_def a_def)
  have fr: "data_frame ''Inflation_Rate'' s1 ''Nominal_Return'' s2 =
      Inr \<lparr>index = idx, columns = [(''Inflation_Rate'', map (lookup_cell s1) idx),
                                   (''Nominal_Return'', map (lookup_cell s2) idx)]\<rparr>"
    unfolding data_frame_def Let_def reindex_distinct[OF d1] reindex_distinct[OF d2]
    by (simp add: idx_def)
  have run: "align_data cpi_df returns_series =
      Inr \<lparr>index = filter P idx,
           columns = [(''Inflation_Rate'', map (lookup_cell s1) (filter P idx)),
                      (''Nominal_Return'', map (lookup_cell s2) (filter P idx))]\<rparr>"
    unfolding align_data_def Let_def g sum.case s2_def[symmetric] fr dropna_frame_two P_def
    by simp
  have look: "\<And>s d. \<not> isna (lookup_cell s d) \<longleftrightarrow> (\<exists>v. map_of s d = Some v \<and> \<not> isna v)"
    by (auto simp: lookup_cell_def isna_def split: option.splits)
  have dom: "\<And>d v. map_of s1 d = Some v \<Longrightarrow> d \<in> set idx"
    using u(2) by (auto dest!: map_of_SomeD intro: rev_image_eqI)
  have mem: "\<And>d. d \<in> set (filter P idx) \<longleftrightarrow>
      (\<exists>v. map_of s1 d = Some v \<and> \<not> isna v) \<and> (\<exists>r. map_of s2 d = Some r \<and> \<not> isna r)"
    using dom by (auto simp: P_def look)
  have so: "sorted_wrt (<) (filter P idx)"
    using u(1) by (rule sorted_wrt_filter)
  then have di: "distinct (filter P idx)"
    by (simp add: strict_sorted_iff)
  have complete: "\<And>c. c \<in> set (map (lookup_cell s1) (filter P idx)) \<Longrightarrow> \<not> isna c"
    "\<And>c. c \<in> set (map (lookup_cell s2) (filter P idx)) \<Longrightarrow> \<not> isna c"
    by (auto simp: P_def)
  let ?df = "\<lparr>index = filter P idx,
           columns = [(''Inflation_Rate'', map (lookup_cell s1) (filter P idx)),
                      (''Nominal_Return'', map (lookup_cell s2) (filter P idx))]\<rparr>"
  have c1: "\<forall>d. d \<in> set (index ?df) \<longleftrightarrow>
        (\<exists>v. map_of s1 d = Some v \<and> \<not> isna v) \<and> (\<exists>r. map_of s2 d = Some r \<and> \<not> isna r)"
    using mem by simp
  have c2: "sorted_wrt (<) (index ?df)" and c3: "distinct (index ?df)"
    using so di by simp_all
  have c4: "map fst (columns ?df) = [''Inflation_Rate'', ''Nominal_Return'']"
    by simp
  have c5: "\<forall>kc \<in> set (columns ?df). length (snd kc) = length (index ?df) \<and>
        (\<forall>c \<in> set (snd kc). \<not> isna c)"
    using complete by simp
  have final: "align_data cpi_df returns_series = Inr ?df \<and>
     (\<forall>d. d \<in> set (index ?df) \<longleftrightarrow>
        (\<exists>v. map_of s1 d = Some v \<and> \<not> isna v) \<and> (\<exists>r. map_of s2 d = Some r \<and> \<not> isna r)) \<and>
     sorted_wrt (<) (index ?df) \<and> distinct (index ?df) \<and>
     map fst (columns ?df) = [''Inflation_Rate'', ''Nominal_Return''] \<and>
     (\<forall>kc \<in> set (columns ?df). length (snd kc) = length (index ?df) \<and>
        (\<forall>c \<in> set (snd kc). \<not> isna c))"
    using run c1 c2 c3 c4 c5 by (intro conjI)
  have e1: "zip (map to_month_end (index cpi_df)) inflation = s1"
    by (simp add: s1_def a_def)
  have e2: "map (\<lambda>dc. (to_month_end (fst dc), snd dc)) returns_series = s2"
    by (simp add: s2_def)
  show ?thesis
    unfolding e1 e2 using final by (rule exI[of _ ?df])
qed


theorem align_data_complete_rows_witness:
  "align_data \<lparr>index = [(2020, 1, 15), (2020, 2, 14), (2020, 3, 13)],
        columns = [(''Inflation_Rate'', [Num (Fin 0.02), Num (Fin 0.03), Num NaN])]\<rparr>
     [((2020, 2, 29), Num (Fin 0.01)), ((2020, 3, 31), Num (Fin 0.05)), ((2020, 4, 30), Num (Fin 0.07))] =
   Inr \<lparr>index = [(2020, 2, 29)],
        columns = [(''Inflation_Rate'', [Num (Fin 0.03)]), (''Nominal_Return'', [Num (Fin 0.01)])]\<rparr>"
proof -
  let ?cpi = "\<lparr>index = [(2020, 1, 15), (2020, 2, 14), (2020, 3, 13)],
        columns = [(''Inflation_Rate'', [Num (Fin 0.02), Num (Fin 0.03), Num NaN])]\<rparr>"
  let ?ret = "[((2020, 2, 29), Num (Fin 0.01)), ((2020, 3, 31), Num (Fin 0.05)), ((2020, 4, 30), Num (Fin 0.07))]"
  have col: "map_of (columns ?cpi) ''Inflation_Rate'' = Some [Num (Fin 0.02), Num (Fin 0.03), Num NaN]"
    by simp
  have len: "length [Num (Fin 0.02), Num (Fin 0.03), Num NaN] = length (index ?cpi)"
    by simp
  have cpi: "sorted_wrt (<) (map to_month_end (index ?cpi))"
    by (simp add: to_month_end_def days_in_month_def is_leap_def)
  have ret: "sorted_wrt (<) (map (to_month_end \<circ> fst) ?ret)"
    by (simp add: to_month_end_def days_in_month_def is_leap_def)
  from align_data_complete_rows[OF col len cpi ret]
  have "\<exists>df. align_data ?cpi ?ret = Inr df \<and> sorted_wrt (<) (index df)"
    by (elim exE conjE) (intro exI conjI, assumption+)
  then obtain df where r: "align_data ?cpi ?ret = Inr df" and so: "sorted_wrt (<) (index df)"
    by blast
  have "align_data ?cpi ?ret =
     Inr \<lparr>index = [(2020, 2, 29)],
          columns = [(''Inflation_Rate'', [Num (Fin 0.03)]), (''Nominal_Return'', [Num (Fin 0.01)])]\<rparr>"
    by (simp add: align_data_def getitem_def data_frame_def union_index_def reindex_def
        lookup_cell_def dropna_frame_def row_complete_def isna_def to_month_end_def
        days_in_month_def is_leap_def Let_def upt_rec[of 0] upt_rec[of 1] upt_rec[of 2]
        upt_rec[of 3] numeral_2_eq_2 numeral_3_eq_3)
  with r so show ?thesis by simp
qed

text \<open>
  Two observations in one month on both sides: the normalized indexes are equal, the
  frame is built on that index as it stands, and the result holds the same month-end
  date twice.
\<close>

theorem align_data_same_month_counterexample:
  "align_data \<lparr>index = [(2020, 1, 10), (2020, 1, 20)],
        columns = [(''Inflation_Rate'', [Num (Fin 0.02), Num (Fin 0.03)])]\<rparr>
     [((2020, 1, 15), Num (Fin 0.01)), ((2020, 1, 31), Num (Fin 0.05))] =
   Inr \<lparr>index = [(2020, 1, 31), (2020, 1, 31)],
        columns = [(''Inflation_Rate'', [Num (Fin 0.02), Num (Fin 0.03)]),
                   (''Nominal_Return'', [Num (Fin 0.01), Num (Fin 0.05)])]\<rparr> \<and>
   \<not> distinct [(2020, 1, 31) :: date, (2020, 1, 31)] \<and>
   \<not> sorted_wrt (<) [(2020, 1, 31) :: date, (2020, 1, 31)]"
  by (simp add: align_data_def getitem_def data_frame_def union_index_def reindex_def
      lookup_cell_def dropna_frame_def row_complete_def isna_def to_month_end_def
      days_in_month_def is_leap_def Let_def upt_rec[of 0] upt_rec[of 1] upt_rec[of 2]
      numeral_2_eq_2)

subsection \<open>Loading the inflation file\<close>






end
